theory Spec2Isabelle
  imports Complex_Main "HOL-Library.AList"
begin

section \<open>JavaScript values\<close>

text \<open>
  An optional property of a JavaScript object is either missing (\<open>undefined\<close>), \<open>null\<close>
  or holds a value of its declared type. The widgets test such properties for truthiness
  and compare them with \<open>===\<close>, which tells \<open>undefined\<close> from \<open>null\<close>, so all three
  cases are kept apart.
\<close>

datatype 'a jsopt = Undefined | Null | Def 'a

text \<open>Truthiness of a string, number, boolean and object (array) property.\<close>

fun truthy_str :: "string jsopt \<Rightarrow> bool" where
  "truthy_str (Def s) = (s \<noteq> [])"
| "truthy_str _ = False"

fun truthy_num :: "int jsopt \<Rightarrow> bool" where
  "truthy_num (Def n) = (n \<noteq> 0)"
| "truthy_num _ = False"



text \<open>
  An array that is compared with \<open>===\<close> is an object with an identity: two arrays with
  the same elements are different objects. \<open>ref\<close> is that identity.
\<close>

datatype 'a array = Array (ref: nat) (elems: "'a list")

section \<open>The configuration\<close>

text \<open>
  The interface \<open>Config\<close> of \<open>widget.ts\<close>, with the properties the widgets below read or
  write. Numbers of the configuration (page, count, year) are integers.
\<close>

record Config =
  sectors :: "string list jsopt"
  naics :: "string list jsopt"
  indicators :: "string list jsopt"
  view :: "string array jsopt"
  perspective :: "string jsopt"
  analysis :: "string jsopt"
  year :: "int jsopt"
  location :: "string jsopt"
  count :: "int jsopt"
  page :: "int jsopt"
  showvalues :: "bool jsopt"

text \<open>The object literal \<open>{}\<close>: every property is missing.\<close>

definition empty_config :: Config where
  "empty_config = \<lparr> sectors = Undefined, naics = Undefined, indicators = Undefined,
     view = Undefined, perspective = Undefined, analysis = Undefined, year = Undefined,
     location = Undefined, count = Undefined, page = Undefined, showvalues = Undefined \<rparr>"

section \<open>The matrix selector\<close>

datatype Matrix = D | U | RD | RU

text \<open>
  \<open>matrixOf(config)\<close>; the argument is \<open>None\<close> for a \<open>null\<close> or \<open>undefined\<close>
  configuration.
\<close>

definition matrixOf :: "Config option \<Rightarrow> Matrix" where
  "matrixOf config =
     (case config of
        None \<Rightarrow> RU
      | Some c \<Rightarrow>
          if \<not> truthy_str (perspective c) then RU
          else if perspective c = Def ''direct''
            then (if \<not> truthy_str (analysis c) then D else RD)
          else (if \<not> truthy_str (analysis c) then U else RU))"

text \<open>
  \<open>update(config, matrix)\<close>; a falsy \<open>matrix\<close> (which the type \<open>Matrix\<close> excludes, but
  the function tests for) is \<open>None\<close>.
\<close>

definition update :: "Config option \<Rightarrow> Matrix option \<Rightarrow> Config" where
  "update config matrix =
     (let conf = (case config of None \<Rightarrow> empty_config | Some c \<Rightarrow> c) in
      case matrix of
        None \<Rightarrow> conf
      | Some m \<Rightarrow>
          if m = D \<or> m = U
          then conf\<lparr> analysis := Null,
                     perspective := (if m = D then Def ''direct'' else Def ''final'') \<rparr>
          else
            (let conf1 = (if \<not> truthy_str (analysis conf)
                          then conf\<lparr> analysis := Def ''Consumption'' \<rparr> else conf)
             in conf1\<lparr> perspective := (if m = RD then Def ''direct'' else Def ''final'') \<rparr>))"

section \<open>Pagination of the industry list\<close>

text \<open>
  \<open>Array.prototype.slice(start, end)\<close> for integer arguments: a negative index counts
  from the end of the array, and both indices are clamped to the array.
\<close>

definition js_slice :: "'a list \<Rightarrow> int \<Rightarrow> int \<Rightarrow> 'a list" where
  "js_slice xs start end =
     (let len = int (length xs);
          k = (if start < 0 then max (len + start) 0 else min start len);
          final = (if end < 0 then max (len + end) 0 else min end len)
      in take (nat (final - k)) (drop (nat k) xs))"

text \<open>
  The page selection of \<open>Component\<close>. With a missing page, \<open>page <= 1\<close> is false and
  the offset is \<open>NaN\<close>, so \<open>offset < ranking.length\<close> is false as well; \<open>null <= 1\<close>
  is true.
\<close>

definition Component_page :: "Config \<Rightarrow> 'a list \<Rightarrow> 'a list" where
  "Component_page config ranking =
     (if truthy_num (count config) \<and> (case count config of Def n \<Rightarrow> n \<ge> 0 | _ \<Rightarrow> False)
      then
        (case count config of
           Def n \<Rightarrow>
             (case page config of
                Def p \<Rightarrow>
                  if p \<le> 1 then js_slice ranking 0 n
                  else
                    (let offset = (p - 1) * n in
                     if offset < int (length ranking)
                     then js_slice ranking offset (offset + n)
                     else js_slice ranking 0 n)
              | Null \<Rightarrow> js_slice ranking 0 n
              | Undefined \<Rightarrow> js_slice ranking 0 n)
         | _ \<Rightarrow> ranking)
      else ranking)"

text \<open>\<open>x || d\<close> for a number property \<open>x\<close> and a number \<open>d\<close>.\<close>

definition num_or :: "int jsopt \<Rightarrow> int \<Rightarrow> int" where
  "num_or x d = (case x of Def n \<Rightarrow> (if n \<noteq> 0 then n else d) | _ \<Rightarrow> d)"

text \<open>
  The page count and the current page of \<open>Paginator\<close>, for a total number of rows.
  \<open>Math.ceil(total / count)\<close> is taken for \<open>count > 0\<close> only, where it is
  \<open>- ((- total) div count)\<close>.
\<close>

definition Paginator_count :: "int \<Rightarrow> Config \<Rightarrow> int" where
  "Paginator_count tot config =
     (let count = num_or (count config) (- 1) in
      if count > tot then tot else count)"

definition Paginator_pageCount :: "int \<Rightarrow> Config \<Rightarrow> int" where
  "Paginator_pageCount tot config =
     (let count = Paginator_count tot config in
      if count > 0 then - ((- tot) div count) else 0)"

definition Paginator_page :: "int \<Rightarrow> Config \<Rightarrow> int" where
  "Paginator_page tot config =
     (let pageCount = Paginator_pageCount tot config;
          page0 = num_or (page config) 1;
          page1 = (if page0 \<le> 0 then 1 else page0)
      in if page1 > pageCount then pageCount else page1)"

section \<open>Page changes of the commodity list\<close>

record PageChangeParams =
  pc_page :: int
  pageSize :: int

definition currentPage :: "Config \<Rightarrow> int" where
  "currentPage config = num_or (page config) 1"

definition currentSize :: "Config \<Rightarrow> int" where
  "currentSize config = num_or (count config) 10"

text \<open>
  \<open>onPageChange\<close> of \<open>CommodityList\<close>. The result is the partial configuration
  handed to \<open>fireChange\<close>, or \<open>None\<close> when the handler returns without firing.
\<close>

definition onPageChange :: "Config \<Rightarrow> PageChangeParams option \<Rightarrow> Config option" where
  "onPageChange config p0 =
     (case p0 of
        None \<Rightarrow> None
      | Some p \<Rightarrow>
          if pc_page p = currentPage config \<and> pageSize p = currentSize config then None
          else if pageSize p \<noteq> currentSize config
            then Some (empty_config\<lparr> page := Def 1, count := Def (pageSize p) \<rparr>)
          else Some (empty_config\<lparr> page := Def (pc_page p), count := Def (pageSize p) \<rparr>))"

section \<open>Strings and numbers of the commodity list\<close>

text \<open>
  A number of JavaScript: \<open>NaN\<close>, an infinity, or a finite number, which is a real
  number (negative zero is zero here; both are written \<open>0\<close>).
\<close>

datatype jsnumber = NaN | PosInfinity | NegInfinity | Number real

text \<open>
  What the commodity list takes from the language and from modules that are not among
  the sources, as parameters: \<open>parseInt\<close> with one argument, the text of a finite
  number in a template literal, and \<open>isNotEmpty\<close> and \<open>search\<close> of \<open>util/strings\<close>.
\<close>

record GridEnv =
  parseInt :: "string \<Rightarrow> jsnumber"
  number_text :: "real \<Rightarrow> string"
  isNotEmpty :: "string \<Rightarrow> bool"
  search :: "string \<Rightarrow> string \<Rightarrow> real"

text \<open>A number in a template literal.\<close>

definition template_text :: "GridEnv \<Rightarrow> jsnumber \<Rightarrow> string" where
  "template_text env v =
     (case v of
        NaN \<Rightarrow> ''NaN''
      | PosInfinity \<Rightarrow> ''Infinity''
      | NegInfinity \<Rightarrow> ''-Infinity''
      | Number r \<Rightarrow> number_text env r)"

definition digit_of :: "char \<Rightarrow> nat option" where
  "digit_of c =
     (let n = (of_char c :: nat) in
      if 48 \<le> n \<and> n \<le> 57 then Some (n - 48)
      else if 97 \<le> n \<and> n \<le> 122 then Some (n - 87)
      else if 65 \<le> n \<and> n \<le> 90 then Some (n - 55)
      else None)"

definition is_digit :: "nat \<Rightarrow> char \<Rightarrow> bool" where
  "is_digit radix c = (case digit_of c of Some d \<Rightarrow> d < radix | None \<Rightarrow> False)"

definition digits_value :: "nat \<Rightarrow> string \<Rightarrow> nat" where
  "digits_value radix z =
     foldl (\<lambda>acc c. radix * acc + (case digit_of c of Some d \<Rightarrow> d | None \<Rightarrow> 0)) 0 z"

definition is_space :: "char \<Rightarrow> bool" where
  "is_space c = ((of_char c :: nat) \<in> {9, 10, 11, 12, 13, 32})"

text \<open>\<open>s.split(c)\<close> for a separator of one character.\<close>

fun split_on :: "char \<Rightarrow> string \<Rightarrow> string list" where
  "split_on c [] = [[]]"
| "split_on c (x # xs) =
     (if x = c then [] # split_on c xs
      else (case split_on c xs of
              [] \<Rightarrow> [[x]]
            | part # parts \<Rightarrow> (x # part) # parts))"

section \<open>The selection map of the commodity list\<close>

text \<open>
  \<open>TMap<number>\<close> is an object that is created as \<open>{}\<close> and used as a dictionary. It
  is the list of its own properties in the order of their creation; its prototype is
  \<open>Object.prototype\<close>, whose properties are these names.
\<close>

type_synonym TMap = "(string \<times> jsnumber) list"

definition Object_prototype :: "string list" where
  "Object_prototype =
     [''constructor'', ''__defineGetter__'', ''__defineSetter__'', ''hasOwnProperty'',
      ''__lookupGetter__'', ''__lookupSetter__'', ''isPrototypeOf'',
      ''propertyIsEnumerable'', ''toString'', ''valueOf'', ''__proto__'',
      ''toLocaleString'']"

text \<open>
  \<open>selection[k] = v\<close> for a number \<open>v\<close>: a property that exists keeps its place and a
  new one is added at the end; the name \<open>__proto__\<close> is the accessor of the prototype,
  which ignores a number, so that no property is created.
\<close>

definition tmap_assign :: "string \<Rightarrow> jsnumber \<Rightarrow> TMap \<Rightarrow> TMap" where
  "tmap_assign k v m = (if k = ''__proto__'' then m else AList.update k v m)"

text \<open>
  \<open>selection[k]\<close>: the number of an own property, or a function or object that is
  inherited from the prototype, or \<open>None\<close> for \<open>undefined\<close>.
\<close>

datatype property = NumberProperty jsnumber | InheritedProperty

definition tmap_get :: "TMap \<Rightarrow> string \<Rightarrow> property option" where
  "tmap_get m k =
     (case map_of m k of
        Some v \<Rightarrow> Some (NumberProperty v)
      | None \<Rightarrow> (if k \<in> set Object_prototype then Some InheritedProperty else None))"

text \<open>
  \<open>Object.keys\<close>: first the keys that are array indices (the canonical decimal text of
  an integer below \<open>2^32 - 1\<close>) in ascending order, then the others in the order of
  creation.
\<close>

definition array_index :: "string \<Rightarrow> nat option" where
  "array_index k =
     (if k \<noteq> [] \<and> list_all (is_digit 10) k \<and> (k = ''0'' \<or> hd k \<noteq> CHR ''0'')
         \<and> digits_value 10 k < 4294967295
      then Some (digits_value 10 k) else None)"

definition index_value :: "string \<Rightarrow> nat" where
  "index_value k = (case array_index k of Some n \<Rightarrow> n | None \<Rightarrow> 0)"

definition object_keys :: "TMap \<Rightarrow> string list" where
  "object_keys m =
     (let ks = map fst m in
      sort_key index_value (filter (\<lambda>k. array_index k \<noteq> None) ks)
        @ filter (\<lambda>k. array_index k = None) ks)"

text \<open>
  The map from sector codes to scaling factors that \<open>CommodityList\<close> reads from the
  sectors of the configuration: a code without \<open>:\<close> has the factor 100, and
  \<open>code:factor\<close> has the factor \<open>parseInt(factor)\<close>.
\<close>

definition selection_step :: "GridEnv \<Rightarrow> TMap \<Rightarrow> string \<Rightarrow> TMap" where
  "selection_step env numMap code =
     (let parts = split_on CHR '':'' code in
      if length parts < 2 then tmap_assign code (Number 100) numMap
      else tmap_assign (parts ! 0) (parseInt env (parts ! 1)) numMap)"

definition selection :: "GridEnv \<Rightarrow> Config \<Rightarrow> TMap" where
  "selection env config =
     (case sectors config of
        Def codes \<Rightarrow> foldl (selection_step env) [] codes
      | _ \<Rightarrow> [])"

text \<open>
  \<open>fireSelectionChange\<close>: the sectors of the configuration that is handed to
  \<open>fireChange\<close>, for the selection map as the handler has left it. A key of
  \<open>Object.keys\<close> is an own property, so \<open>selection[code]\<close> is its number.
\<close>

definition fireSelectionChange :: "GridEnv \<Rightarrow> TMap \<Rightarrow> string list" where
  "fireSelectionChange env sel =
     (let mapped = map (\<lambda>code.
            if code \<noteq> []
            then Def (code @ '':'' @ (case map_of sel code of
                                       Some v \<Rightarrow> template_text env v
                                     | None \<Rightarrow> ''undefined''))
            else Null) (object_keys sel)
      in concat (map (\<lambda>s. case s of Def e \<Rightarrow> (if truthy_str s then [e] else []) | _ \<Rightarrow> [])
                  mapped))"

section \<open>Sectors and commodities\<close>

record Sector =
  sector_id :: string
  sector_index :: int
  sector_name :: string
  sector_code :: string
  sector_description :: string

text \<open>
  A commodity. Its value is declared a number; it is what \<open>selection[s.code]\<close> gives,
  which for a code that names a property of the prototype is not a number.
\<close>

record Commodity =
  commodity_id :: string
  commodity_index :: int
  commodity_name :: string
  commodity_code :: string
  selected :: bool
  commodity_value :: property
  commodity_description :: string

text \<open>
  Modelled from the spec: \<open>ifNone\<close> of \<open>util/util.ts\<close>, which is not among the sources;
  it gives the value 100 to a commodity without an explicit factor, so it returns its
  second argument for a missing first one.
\<close>

definition ifNone :: "'a option \<Rightarrow> 'a \<Rightarrow> 'a" where
  "ifNone v d = (case v of None \<Rightarrow> d | Some x \<Rightarrow> x)"

text \<open>
  The commodity of a sector: it is selected when \<open>typeof selection[s.code]\<close> is
  \<open>"number"\<close>.
\<close>

definition commodity_of :: "TMap \<Rightarrow> Sector \<Rightarrow> Commodity" where
  "commodity_of sel s =
     \<lparr> commodity_id = sector_id s,
       commodity_index = sector_index s,
       commodity_name = sector_name s,
       commodity_code = sector_code s,
       selected = (case tmap_get sel (sector_code s) of
                     Some (NumberProperty v) \<Rightarrow> True
                   | other \<Rightarrow> False),
       commodity_value = ifNone (tmap_get sel (sector_code s)) (NumberProperty (Number 100)),
       commodity_description = sector_description s \<rparr>"

text \<open>
  The sort options are a state of the component; the class \<open>SortOptions\<close> is not among
  the sources, and an object of it is the record of its method \<open>apply\<close>.
\<close>

record SortOptions =
  sort_apply :: "Commodity list \<Rightarrow> Commodity list"

text \<open>
  The commodities that \<open>CommodityList\<close> hands to the grid as its rows: the commodities
  of \<open>props.sectors\<close>, after \<open>sortOpts.apply\<close> and the filter by the search term,
  which is a state of the component as well.
\<close>

definition commodities ::
  "GridEnv \<Rightarrow> SortOptions \<Rightarrow> string \<Rightarrow> Config \<Rightarrow> Sector list \<Rightarrow> Commodity list" where
  "commodities env sortOpts searchTerm config secs =
     (let commodities0 = map (commodity_of (selection env config)) secs;
          commodities1 = sort_apply sortOpts commodities0
      in if isNotEmpty env searchTerm
         then filter (\<lambda>c. search env (commodity_name c) searchTerm \<noteq> - 1) commodities1
         else commodities1)"

text \<open>
  The click handler of the check box of a commodity: the sectors fired for the
  configuration \<open>config\<close> of this render.
\<close>

definition checkbox_onClick :: "GridEnv \<Rightarrow> Config \<Rightarrow> Commodity \<Rightarrow> string list" where
  "checkbox_onClick env config commodity =
     (let sel = selection env config;
          sel1 = (if selected commodity then AList.delete (commodity_code commodity) sel
                  else tmap_assign (commodity_code commodity) (Number 100) sel)
      in fireSelectionChange env sel1)"

text \<open>The change handler of the slider of a commodity, for the value of the slider.\<close>

definition slider_onChange :: "GridEnv \<Rightarrow> Config \<Rightarrow> Commodity \<Rightarrow> jsnumber \<Rightarrow> string list" where
  "slider_onChange env config commodity v =
     fireSelectionChange env (tmap_assign (commodity_code commodity) v (selection env config))"

subsection \<open>The sector selection of a configuration, as the specification reads it\<close>

text \<open>
  An entry of the sectors of a configuration is \<open>code\<close> or \<open>code:factor\<close>. Its code is
  the text before the first colon; its factor is 100 without a colon, and else
  \<open>parseInt\<close> of the text between the first colon and the next. The factor that a
  configuration gives a code is the factor of the last entry of that code.
\<close>

definition entry_key :: "string \<Rightarrow> string" where
  "entry_key e = takeWhile (\<lambda>c. c \<noteq> CHR '':'') e"

definition entry_factor :: "GridEnv \<Rightarrow> string \<Rightarrow> jsnumber" where
  "entry_factor env e =
     (if CHR '':'' \<in> set e
      then parseInt env (takeWhile (\<lambda>c. c \<noteq> CHR '':'') (tl (dropWhile (\<lambda>c. c \<noteq> CHR '':'') e)))
      else Number 100)"

definition configured :: "GridEnv \<Rightarrow> Config \<Rightarrow> string \<Rightarrow> jsnumber option" where
  "configured env config =
     (case sectors config of
        Def codes \<Rightarrow> map_of (rev (map (\<lambda>e. (entry_key e, entry_factor env e)) codes))
      | _ \<Rightarrow> Map.empty)"

text \<open>The entry \<open>code:factor\<close> of a code and a factor.\<close>

definition entry_text :: "GridEnv \<Rightarrow> string \<Rightarrow> jsnumber \<Rightarrow> string" where
  "entry_text env k v = k @ '':'' @ template_text env v"

text \<open>The range of the slider, for a factor and for the value of a commodity.\<close>

definition factor_in_range :: "jsnumber \<Rightarrow> bool" where
  "factor_in_range v = (case v of Number r \<Rightarrow> 0 \<le> r \<and> r \<le> 500 | other \<Rightarrow> False)"

definition in_range :: "property \<Rightarrow> bool" where
  "in_range p = (case p of NumberProperty v \<Rightarrow> factor_in_range v | InheritedProperty \<Rightarrow> False)"

subsection \<open>Values for examples of the commodity list\<close>

text \<open>The decimal digits of a natural number and of an integer.\<close>

fun show_nat :: "nat \<Rightarrow> string" where
  "show_nat n =
     (if n < 10 then [''0123456789'' ! n]
      else show_nat (n div 10) @ [''0123456789'' ! (n mod 10)])"

declare show_nat.simps [simp del]

definition decimal_text :: "int \<Rightarrow> string" where
  "decimal_text n = (if n < 0 then CHR ''-'' # show_nat (nat (- n)) else show_nat (nat n))"

text \<open>
  An environment for examples. Its \<open>parseInt\<close> skips white space and a sign, takes
  \<open>0x\<close> for radix 16, and gives the value of the longest prefix of digits, or \<open>NaN\<close>
  without a digit; this is what \<open>parseInt\<close> gives for a text of ASCII characters
  whose digits are an integer below \<open>2^53\<close>. A number is written as the decimal text
  of its integral part, which is its text when it is such an integer. A text is not
  empty when it has a character, and \<open>search\<close> finds nothing.
\<close>

definition example_parseInt :: "string \<Rightarrow> jsnumber" where
  "example_parseInt input =
     (let s = dropWhile is_space input;
          negative = (s \<noteq> [] \<and> hd s = CHR ''-'');
          s1 = (if s \<noteq> [] \<and> (hd s = CHR ''+'' \<or> hd s = CHR ''-'') then tl s else s);
          hex = (length s1 \<ge> 2 \<and> (take 2 s1 = ''0x'' \<or> take 2 s1 = ''0X''));
          radix = (if hex then 16 else 10);
          s2 = (if hex then drop 2 s1 else s1);
          z = takeWhile (is_digit radix) s2
      in if z = [] then NaN
         else if negative then Number (- real (digits_value radix z))
         else Number (real (digits_value radix z)))"

definition example_grid :: GridEnv where
  "example_grid =
     \<lparr> parseInt = example_parseInt,
       number_text = (\<lambda>r. decimal_text \<lfloor>r\<rfloor>),
       isNotEmpty = (\<lambda>s. s \<noteq> []),
       search = (\<lambda>s t. - 1) \<rparr>"

text \<open>Sort options that turn the list around.\<close>

definition example_sortOpts :: SortOptions where
  "example_sortOpts = \<lparr> sort_apply = rev \<rparr>"

text \<open>
  A sector without an entry in the examples, and sectors whose codes are the empty text,
  \<open>__proto__\<close> and \<open>toString\<close>.
\<close>

definition Cherry :: Sector where
  "Cherry = \<lparr> sector_id = ''C/US'', sector_index = 2, sector_name = ''Cherry'',
              sector_code = ''C'', sector_description = [] \<rparr>"

definition sector_with_code :: "string \<Rightarrow> Sector" where
  "sector_with_code k = \<lparr> sector_id = ''s'', sector_index = 0, sector_name = ''Sector'',
                           sector_code = k, sector_description = [] \<rparr>"

section \<open>The industry list\<close>

subsection \<open>Data of the model API and of modules outside the sources\<close>

datatype IndicatorGroup =
  IMPACT_POTENTIAL | RESOURCE_USE | CHEMICAL_RELEASES | WASTE_GENERATED | ECONOMIC_SOCIAL


text \<open>An indicator; its group is \<open>None\<close> when it is missing.\<close>

record Indicator =
  indicator_id :: string
  indicator_code :: string
  indicator_name :: string
  indicator_unit :: string
  indicator_group :: "IndicatorGroup option"

text \<open>
  A result of the heatmap. The class \<open>HeatmapResult\<close> is not among the sources; an
  object of it is the record of the two methods the industry list calls. Scores,
  results and demand amounts are real numbers.
\<close>

record HeatmapResult =
  getRanking :: "Indicator list option \<Rightarrow> (Sector \<times> real) list"
  getResult :: "Indicator \<Rightarrow> Sector \<Rightarrow> real"

record DemandEntry =
  entry_sector :: string
  amount :: real

record Result =
  result_data :: "real list list"
  result_totals :: "real list"
  result_indicators :: "string list"
  result_sectors :: "string list"

record CalculationSetup =
  setup_perspective :: "string jsopt"
  setup_demand :: "DemandEntry list option"

text \<open>
  The model API, as the answers it gives while one update runs. \<open>matrix\<close> gives the
  data of a matrix.
\<close>

record Model =
  singleRegionSectors :: "Sector list"
  model_sectors :: "Sector list"
  model_indicators :: "Indicator list"
  matrix :: "string \<Rightarrow> real list list"
  findDemand :: "Config \<Rightarrow> string"
  model_demand :: "string \<Rightarrow> DemandEntry list option"
  model_calculate :: "CalculationSetup \<Rightarrow> Result"

text \<open>
  What the industry list imports from modules that are not among the sources, taken as
  parameters: \<open>isMember\<close>, \<open>compare\<close> and \<open>search\<close> of \<open>util/strings\<close>,
  \<open>HeatmapResult.from\<close>, \<open>ones\<close> of \<open>calc/calc\<close>, \<open>DEFAULT_INDICATORS\<close> of
  \<open>config\<close>, and the text of a number in a template literal.
\<close>

record Env =
  strings_isMember :: "string \<Rightarrow> string array jsopt \<Rightarrow> bool"
  strings_compare :: "string \<Rightarrow> string \<Rightarrow> real"
  strings_search :: "string \<Rightarrow> string \<Rightarrow> real"
  HeatmapResult_from :: "Model \<Rightarrow> Result \<Rightarrow> HeatmapResult"
  ones :: "nat \<Rightarrow> real list"
  DEFAULT_INDICATORS :: "string list"
  show_number :: "real \<Rightarrow> string"

subsection \<open>The widget\<close>

text \<open>The fields of an \<open>IndustryList\<close>; a field that was never assigned is \<open>None\<close>.\<close>

record IndustryList =
  this_config :: "Config option"
  this_result :: "HeatmapResult option"
  this_demand :: "(string \<rightharpoonup> real) option"
  this_indicators :: "Indicator list option"
  this_sectors :: "Sector list option"
  this_naicsAttr :: "string jsopt"





text \<open>
  \<open>Array.prototype.sort\<close> with a comparator. The sort is stable, and for a consistent
  comparator every stable sort gives the same array; it is written as an insertion sort
  that puts an element before the first one it does not come after.
\<close>

fun js_insert :: "('a \<Rightarrow> 'a \<Rightarrow> real) \<Rightarrow> 'a \<Rightarrow> 'a list \<Rightarrow> 'a list" where
  "js_insert cmp x [] = [x]"
| "js_insert cmp x (y # ys) = (if cmp x y \<le> 0 then x # y # ys else y # js_insert cmp x ys)"

definition js_sort :: "('a \<Rightarrow> 'a \<Rightarrow> real) \<Rightarrow> 'a list \<Rightarrow> 'a list" where
  "js_sort cmp xs = foldr (js_insert cmp) xs []"








subsection \<open>The ranking of the component\<close>

text \<open>The comparator of the rows of the ranking.\<close>

definition compare_rows :: "Env \<Rightarrow> Sector \<times> real \<Rightarrow> Sector \<times> real \<Rightarrow> real" where
  "compare_rows env row1 row2 =
     (case (row1, row2) of
        ((s1, rank1), (s2, rank2)) \<Rightarrow>
          if rank1 = rank2 then strings_compare env (sector_name s1) (sector_name s2)
          else rank2 - rank1)"

text \<open>
  The sorted ranking of \<open>Component\<close>, before a page is selected, for the indicator
  that sorts (\<open>None\<close> for \<open>null\<close>) and the search term. Without a result and with
  sectors that were never assigned, \<open>props.widget.sectors.map\<close> throws a
  \<open>TypeError\<close>: the ranking is \<open>None\<close>.
\<close>

definition Component_ranking ::
  "Env \<Rightarrow> IndustryList \<Rightarrow> Indicator option \<Rightarrow> string jsopt \<Rightarrow> (Sector \<times> real) list option" where
  "Component_ranking env this sorter searchTerm =
     (let ranking0 =
            (case this_result this of
               Some result \<Rightarrow>
                 Some (getRanking result
                         (case sorter of Some i \<Rightarrow> Some [i] | None \<Rightarrow> this_indicators this))
             | None \<Rightarrow> map_option (map (\<lambda>s. (s, 0))) (this_sectors this))
      in case ranking0 of
           None \<Rightarrow> None
         | Some ranking \<Rightarrow>
             (let ranking1 =
                    (case searchTerm of
                       Def t \<Rightarrow>
                         if truthy_str searchTerm
                         then filter (\<lambda>row. strings_search env (sector_name (fst row)) t \<ge> 0)
                                ranking
                         else ranking
                     | other \<Rightarrow> ranking)
              in Some (js_sort (compare_rows env) ranking1)))"

text \<open>The rows of \<open>Component\<close>: the page of the sorted ranking.\<close>

definition Component_rows ::
  "Env \<Rightarrow> IndustryList \<Rightarrow> Indicator option \<Rightarrow> string jsopt \<Rightarrow> (Sector \<times> real) list option" where
  "Component_rows env this sorter searchTerm =
     (case this_config this of
        None \<Rightarrow> None
      | Some config \<Rightarrow>
          map_option (Component_page config) (Component_ranking env this sorter searchTerm))"

subsection \<open>Comparators\<close>

text \<open>
  A consistent comparator, as \<open>Array.prototype.sort\<close> asks for one: \<open>a\<close> comes before
  \<open>b\<close> exactly when \<open>b\<close> comes after \<open>a\<close>, and "does not come after" is transitive.
\<close>

definition consistent_comparator :: "('a \<Rightarrow> 'a \<Rightarrow> real) \<Rightarrow> bool" where
  "consistent_comparator cmp =
     ((\<forall>a b. (cmp a b < 0) = (0 < cmp b a))
      \<and> (\<forall>a b c. cmp a b \<le> 0 \<and> cmp b c \<le> 0 \<longrightarrow> cmp a c \<le> 0))"

text \<open>
  The order of the ranking: a row comes before the rows with a lower score and before
  the rows with its score and a name that does not come before its own.
\<close>

definition row_before :: "Env \<Rightarrow> Sector \<times> real \<Rightarrow> Sector \<times> real \<Rightarrow> bool" where
  "row_before env row1 row2 =
     (snd row2 < snd row1
      \<or> (snd row1 = snd row2
          \<and> strings_compare env (sector_name (fst row1)) (sector_name (fst row2)) \<le> 0))"

text \<open>
  Modelled from the spec: \<open>compare\<close> of \<open>util/strings\<close>, which is not among the
  sources, as the alphabetical order of two names, character by character.
\<close>

fun alphabetical :: "string \<Rightarrow> string \<Rightarrow> real" where
  "alphabetical [] [] = 0"
| "alphabetical [] (y # ys) = - 1"
| "alphabetical (x # xs) [] = 1"
| "alphabetical (x # xs) (y # ys) =
     (if (of_char x :: nat) < of_char y then - 1
      else if (of_char y :: nat) < of_char x then 1
      else alphabetical xs ys)"

subsection \<open>Values for examples\<close>

text \<open>
  An environment, a model, and sectors for examples. \<open>isMember\<close> is membership in the
  list, \<open>search\<close> finds nothing, \<open>HeatmapResult.from\<close> gives a result without rows,
  and a number is printed as the decimal text of its integral part.
\<close>

definition example_result :: HeatmapResult where
  "example_result = \<lparr> getRanking = (\<lambda>inds. []), getResult = (\<lambda>i s. 0) \<rparr>"

definition example_env :: Env where
  "example_env =
     \<lparr> strings_isMember = (\<lambda>s xs. case xs of Def a \<Rightarrow> s \<in> set (elems a) | other \<Rightarrow> False),
       strings_compare = alphabetical,
       strings_search = (\<lambda>s t. - 1),
       HeatmapResult_from = (\<lambda>model result. example_result),
       ones = (\<lambda>n. replicate n 1),
       DEFAULT_INDICATORS = [],
       show_number = (\<lambda>x. decimal_text \<lfloor>x\<rfloor>) \<rparr>"


definition Apple :: Sector where
  "Apple = \<lparr> sector_id = ''A/US'', sector_index = 0, sector_name = ''Apple'',
             sector_code = ''A'', sector_description = [] \<rparr>"

definition Banana :: Sector where
  "Banana = \<lparr> sector_id = ''B/US'', sector_index = 1, sector_name = ''Banana'',
              sector_code = ''B'', sector_description = [] \<rparr>"

subsection \<open>The download of the ranking as delimited text\<close>

definition dquote :: char where
  "dquote = CHR 0x22"

definition newline :: char where
  "newline = CHR 0x0A"

text \<open>
  The ranking that \<open>onDownload\<close> writes; as in the component, it is \<open>None\<close> when
  \<open>w.sectors.map\<close> throws.
\<close>

definition download_ranking :: "IndustryList \<Rightarrow> (Sector \<times> real) list option" where
  "download_ranking w =
     (case this_result w of
        Some result \<Rightarrow> Some (getRanking result (this_indicators w))
      | None \<Rightarrow> map_option (map (\<lambda>s. (s, 0))) (this_sectors w))"

text \<open>
  The first line of the text, without the line feed that ends it. The columns of the
  indicators and of the ranking are written under \<open>w.result && w.indicators\<close>, which
  holds for a result and an array of indicators, also an empty one.
\<close>

definition csv_header :: "IndustryList \<Rightarrow> string" where
  "csv_header w =
     ''sector code,sector name''
     @ (if this_demand w \<noteq> None then '',demand'' else [])
     @ (case (this_result w, this_indicators w) of
          (Some result, Some inds) \<Rightarrow>
            concat (map (\<lambda>i. '','' @ [dquote] @ indicator_code i @ '' - '' @ indicator_name i
                              @ '' ['' @ indicator_unit i @ '']'' @ [dquote]) inds)
            @ '',ranking''
        | other \<Rightarrow> [])"

text \<open>A number or \<open>undefined\<close> in a template literal.\<close>

definition template_number :: "Env \<Rightarrow> real option \<Rightarrow> string" where
  "template_number env x = (case x of None \<Rightarrow> ''undefined'' | Some v \<Rightarrow> show_number env v)"

text \<open>The line of a row of the ranking, without the line feed that ends it.\<close>

definition csv_row :: "Env \<Rightarrow> IndustryList \<Rightarrow> Sector \<times> real \<Rightarrow> string" where
  "csv_row env w row =
     (case row of
        (sector, rank) \<Rightarrow>
          [dquote] @ sector_code sector @ [dquote] @ '','' @ [dquote] @ sector_name sector
          @ [dquote]
          @ (case this_demand w of
               Some demand \<Rightarrow> '','' @ template_number env (demand (sector_code sector))
             | None \<Rightarrow> [])
          @ (case (this_result w, this_indicators w) of
               (Some result, Some inds) \<Rightarrow>
                 concat (map (\<lambda>i. '','' @ show_number env (getResult result i sector)) inds)
                 @ '','' @ show_number env rank
             | other \<Rightarrow> []))"

text \<open>The text of the download in the format CSV.\<close>

definition onDownload_CSV :: "Env \<Rightarrow> IndustryList \<Rightarrow> string option" where
  "onDownload_CSV env w =
     map_option
       (\<lambda>ranking. csv_header w @ [newline]
                   @ concat (map (\<lambda>row. csv_row env w row @ [newline]) ranking))
       (download_ranking w)"

subsection \<open>Columns of delimited text\<close>

text \<open>
  The columns of a line of delimited text: the line is cut at every comma that is not
  inside double quotes. \<open>csv_split\<close> carries whether it is inside quotes and the
  column read so far.
\<close>

fun csv_split :: "bool \<Rightarrow> string \<Rightarrow> string \<Rightarrow> string list" where
  "csv_split inside column [] = [column]"
| "csv_split inside column (c # cs) =
     (if c = dquote then csv_split (\<not> inside) (column @ [c]) cs
      else if c = CHR '','' \<and> \<not> inside then column # csv_split False [] cs
      else csv_split inside (column @ [c]) cs)"

definition csv_columns :: "string \<Rightarrow> string list" where
  "csv_columns line = csv_split False [] line"

text \<open>
  A text that is one column, or the rest of one when read from inside quotes: it has no
  comma outside quotes, and its quotes are closed at its end.
\<close>

fun one_column :: "bool \<Rightarrow> string \<Rightarrow> bool" where
  "one_column inside [] = (\<not> inside)"
| "one_column inside (c # cs) =
     (if c = dquote then one_column (\<not> inside) cs
      else if c = CHR '','' \<and> \<not> inside then False
      else one_column inside cs)"

text \<open>
  The number of columns as the specification gives it, with the number of indicators
  of the widget, and the number of columns that the download writes.
\<close>

definition indicatorCount :: "IndustryList \<Rightarrow> nat" where
  "indicatorCount w = (case this_indicators w of Some inds \<Rightarrow> length inds | None \<Rightarrow> 0)"

definition spec_column_count :: "IndustryList \<Rightarrow> nat" where
  "spec_column_count w =
     2 + (if this_demand w \<noteq> None then 1 else 0) + indicatorCount w
       + (if indicatorCount w > 0 then 1 else 0)"

definition column_count :: "IndustryList \<Rightarrow> nat" where
  "column_count w =
     2 + (if this_demand w \<noteq> None then 1 else 0)
       + (if this_result w \<noteq> None \<and> this_indicators w \<noteq> None then indicatorCount w + 1 else 0)"

text \<open>The columns in their order: of the first line, and of the line of a row.\<close>

definition header_columns :: "IndustryList \<Rightarrow> string list" where
  "header_columns w =
     [''sector code'', ''sector name'']
     @ (if this_demand w \<noteq> None then [''demand''] else [])
     @ (case (this_result w, this_indicators w) of
          (Some result, Some inds) \<Rightarrow>
            map (\<lambda>i. [dquote] @ indicator_code i @ '' - '' @ indicator_name i
                      @ '' ['' @ indicator_unit i @ '']'' @ [dquote]) inds
            @ [''ranking'']
        | other \<Rightarrow> [])"

definition row_columns :: "Env \<Rightarrow> IndustryList \<Rightarrow> Sector \<times> real \<Rightarrow> string list" where
  "row_columns env w row =
     [[dquote] @ sector_code (fst row) @ [dquote], [dquote] @ sector_name (fst row) @ [dquote]]
     @ (case this_demand w of
          Some demand \<Rightarrow> [template_number env (demand (sector_code (fst row)))]
        | None \<Rightarrow> [])
     @ (case (this_result w, this_indicators w) of
          (Some result, Some inds) \<Rightarrow>
            map (\<lambda>i. show_number env (getResult result i (fst row))) inds
            @ [show_number env (snd row)]
        | other \<Rightarrow> [])"

text \<open>An indicator and a row without a double quote in their texts.\<close>

definition quote_free_indicator :: "Indicator \<Rightarrow> bool" where
  "quote_free_indicator i =
     (dquote \<notin> set (indicator_code i) \<and> dquote \<notin> set (indicator_name i)
      \<and> dquote \<notin> set (indicator_unit i))"

definition quote_free_row :: "Sector \<times> real \<Rightarrow> bool" where
  "quote_free_row row =
     (dquote \<notin> set (sector_code (fst row)) \<and> dquote \<notin> set (sector_name (fst row)))"

text \<open>A state of the widget with a result and an empty list of indicators.\<close>

definition example_widget :: IndustryList where
  "example_widget =
     \<lparr> this_config = Some empty_config, this_result = Some example_result,
       this_demand = None, this_indicators = Some [], this_sectors = None,
       this_naicsAttr = Null \<rparr>"

text \<open>
  A state of the widget with a demand, a result that ranks two sectors, and one
  indicator.
\<close>

definition example_indicator :: Indicator where
  "example_indicator =
     \<lparr> indicator_id = ''1'', indicator_code = ''GHG'', indicator_name = ''Greenhouse Gases'',
       indicator_unit = ''kg CO2 eq'', indicator_group = Some IMPACT_POTENTIAL \<rparr>"

definition example_ranked :: IndustryList where
  "example_ranked =
     \<lparr> this_config = Some empty_config,
       this_result = Some \<lparr> getRanking = (\<lambda>inds. [(Apple, 2), (Banana, 1)]),
                            getResult = (\<lambda>i s. 3) \<rparr>,
       this_demand = Some [''A'' \<mapsto> 5],
       this_indicators = Some [example_indicator],
       this_sectors = None,
       this_naicsAttr = Null \<rparr>"

text \<open>
  A sector whose name holds a double quote and a comma, and a state of the widget
  without a result that has this sector alone.
\<close>

definition Quoted :: Sector where
  "Quoted = \<lparr> sector_id = ''Q/US'', sector_index = 2,
              sector_name = ''x'' @ [dquote] @ '',y'',
              sector_code = ''Q'', sector_description = [] \<rparr>"

definition example_quoted :: IndustryList where
  "example_quoted =
     \<lparr> this_config = Some empty_config, this_result = None, this_demand = None,
       this_indicators = Some [], this_sectors = Some [Quoted], this_naicsAttr = Null \<rparr>"


section \<open>Properties\<close>


text \<open>
  C9: for every configuration, also a missing one, and every matrix \<open>m\<close> of the four,
  selecting \<open>m\<close> and reading the matrix back from the updated configuration gives \<open>m\<close>.
\<close>

theorem matrixOf_update: "matrixOf (Some (update c (Some m))) = m"
  by (cases m) (simp_all add: matrixOf_def update_def Let_def)

lemma js_slice_from:
  assumes "0 \<le> a" and "a \<le> int (length xs)" and "0 \<le> n"
  shows "js_slice xs a (a + n) = take (nat n) (drop (nat a) xs)"
proof (cases "a + n \<le> int (length xs)")
  case True
  with assms show ?thesis
    by (simp add: js_slice_def Let_def min_def)
next
  case False
  with assms have "length (drop (nat a) xs) \<le> nat n"
    by simp
  then have "take (nat n) (drop (nat a) xs) = drop (nat a) xs"
    by (rule take_all)
  moreover from False assms
  have "js_slice xs a (a + n) = take (nat (int (length xs) - a)) (drop (nat a) xs)"
    by (simp add: js_slice_def Let_def min_def)
  moreover from assms have "nat (int (length xs) - a) = length (drop (nat a) xs)"
    by simp
  ultimately show ?thesis
    by simp
qed

text \<open>
  C1: for a page size \<open>N \<ge> 1\<close> and a page \<open>P\<close> whose offset \<open>(P - 1) * N\<close> lies within
  the ranking, the rows that the component shows are the rows \<open>[(P - 1) * N, P * N)\<close>
  of the ranking, cut at its end.
\<close>

theorem Component_page_in_range:
  assumes "this_config this = Some config"
    and "Component_ranking env this sorter searchTerm = Some ranking"
    and "count config = Def N" and "page config = Def P" and "1 \<le> N"
    and "0 \<le> (P - 1) * N" and "(P - 1) * N < int (length ranking)"
  shows "Component_rows env this sorter searchTerm
           = Some (take (nat N) (drop (nat ((P - 1) * N)) ranking))"
proof -
  have "Component_page config ranking = take (nat N) (drop (nat ((P - 1) * N)) ranking)"
  proof (cases "P \<le> 1")
    case True
    from assms(5,6) have "0 \<le> P - 1"
      by (simp add: zero_le_mult_iff)
    with True have "P = 1" by simp
    moreover from assms(5)
    have "js_slice ranking 0 (0 + N) = take (nat N) (drop (nat 0) ranking)"
      by (intro js_slice_from) simp_all
    ultimately show ?thesis
      using assms(3-5) by (simp add: Component_page_def)
  next
    case False
    from assms(5-7)
    have "js_slice ranking ((P - 1) * N) ((P - 1) * N + N)
            = take (nat N) (drop (nat ((P - 1) * N)) ranking)"
      by (intro js_slice_from) simp_all
    with False assms(3-7) show ?thesis
      by (simp add: Component_page_def Let_def)
  qed
  with assms(1,2) show ?thesis
    by (simp add: Component_rows_def)
qed

theorem Component_page_in_range_witness:
  "Component_rows example_env
     \<lparr> this_config = Some (empty_config\<lparr> count := Def 1, page := Def 2 \<rparr>),
       this_result = None, this_demand = None, this_indicators = Some [],
       this_sectors = Some [Banana, Apple], this_naicsAttr = Null \<rparr> None Null
     = Some [(Banana, 0)]"
  using Component_page_in_range
    [of "\<lparr> this_config = Some (empty_config\<lparr> count := Def 1, page := Def 2 \<rparr>),
          this_result = None, this_demand = None, this_indicators = Some [],
          this_sectors = Some [Banana, Apple], this_naicsAttr = Null \<rparr>"
      "empty_config\<lparr> count := Def 1, page := Def 2 \<rparr>" example_env None Null
      "[(Apple, 0), (Banana, 0)]" 1 2]
  by (simp add: example_env_def Apple_def Banana_def Component_ranking_def js_sort_def
      compare_rows_def)

text \<open>
  C2, on five rows with two rows a page and the page 4, whose offset 6 is past the end:
  \<open>Component\<close> shows the first page, while \<open>Paginator\<close> takes the last page, 3, as
  the current one; the last page holds the fifth row alone.
\<close>

theorem Component_page_past_end:
  "Component_page (empty_config\<lparr> count := Def 2, page := Def 4 \<rparr>) [10, 20, 30, 40, 50 :: nat]
     = [10, 20]
   \<and> Paginator_page 5 (empty_config\<lparr> count := Def 2, page := Def 4 \<rparr>) = 3
   \<and> js_slice [10, 20, 30, 40, 50 :: nat] ((3 - 1) * 2) ((3 - 1) * 2 + 2) = [50]"
  by (simp add: Component_page_def Paginator_page_def Paginator_pageCount_def
      Paginator_count_def num_or_def js_slice_def empty_config_def Let_def)

text \<open>
  C7, as amended: a page change whose page size is not the count of the configuration,
  or is not 10 when the configuration has no count or the count 0, fires a
  configuration with page 1 and the new page size.
\<close>

theorem onPageChange_size_change:
  "(count config = Def n \<and> n \<noteq> 0 \<and> pageSize p \<noteq> n
      \<longrightarrow> onPageChange config (Some p)
            = Some (empty_config\<lparr> page := Def 1, count := Def (pageSize p) \<rparr>))
   \<and> ((count config = Undefined \<or> count config = Null \<or> count config = Def 0)
        \<and> pageSize p \<noteq> 10
      \<longrightarrow> onPageChange config (Some p)
            = Some (empty_config\<lparr> page := Def 1, count := Def (pageSize p) \<rparr>))"
  by (auto simp add: onPageChange_def currentSize_def num_or_def)

theorem onPageChange_size_change_witness:
  "onPageChange (empty_config\<lparr> page := Def 3, count := Def 20 \<rparr>)
       (Some \<lparr> pc_page = 3, pageSize = 50 \<rparr>)
     = Some (empty_config\<lparr> page := Def 1, count := Def 50 \<rparr>)
   \<and> onPageChange (empty_config\<lparr> page := Def 3 \<rparr>) (Some \<lparr> pc_page = 3, pageSize = 20 \<rparr>)
     = Some (empty_config\<lparr> page := Def 1, count := Def 20 \<rparr>)"
  using onPageChange_size_change
    [of "empty_config\<lparr> page := Def 3, count := Def 20 \<rparr>" 20 "\<lparr> pc_page = 3, pageSize = 50 \<rparr>"]
    onPageChange_size_change
    [of "empty_config\<lparr> page := Def 3 \<rparr>" 0 "\<lparr> pc_page = 3, pageSize = 20 \<rparr>"]
  by (simp add: empty_config_def)

text \<open>
  C7 as it is stated fails for a configuration with the count 0, which the handler
  takes for the count 10: a change to the page size 10 differs from the count, and the
  handler keeps the page of the event, or fires nothing when the page is the current
  one.
\<close>

theorem onPageChange_count_zero:
  "count (empty_config\<lparr> count := Def 0 \<rparr>) = Def 0
   \<and> pageSize \<lparr> pc_page = 3, pageSize = 10 \<rparr> \<noteq> 0
   \<and> onPageChange (empty_config\<lparr> count := Def 0 \<rparr>) (Some \<lparr> pc_page = 3, pageSize = 10 \<rparr>)
     = Some (empty_config\<lparr> page := Def 3, count := Def 10 \<rparr>)
   \<and> onPageChange (empty_config\<lparr> count := Def 0 \<rparr>) (Some \<lparr> pc_page = 3, pageSize = 10 \<rparr>)
     \<noteq> Some (empty_config\<lparr> page := Def 1, count := Def 10 \<rparr>)
   \<and> onPageChange (empty_config\<lparr> count := Def 0, page := Def 2 \<rparr>)
       (Some \<lparr> pc_page = 2, pageSize = 10 \<rparr>)
     = None"
  by (simp add: onPageChange_def currentSize_def currentPage_def num_or_def empty_config_def)

text \<open>
  C10: a page change to the current page (\<open>config.page || 1\<close>) with the current page
  size (\<open>config.count || 10\<close>) fires nothing.
\<close>

theorem onPageChange_same:
  "pc_page p = currentPage config \<Longrightarrow> pageSize p = currentSize config \<Longrightarrow>
   onPageChange config (Some p) = None"
  by (simp add: onPageChange_def)

theorem onPageChange_same_witness:
  "onPageChange empty_config (Some \<lparr> pc_page = 1, pageSize = 10 \<rparr>) = None"
  using onPageChange_same [of "\<lparr> pc_page = 1, pageSize = 10 \<rparr>" empty_config]
  by (simp add: currentPage_def currentSize_def num_or_def empty_config_def)

lemma set_object_keys: "set (object_keys m) = fst ` set m"
  by (auto simp add: object_keys_def Let_def)

lemma split_on_not_Nil: "split_on c s \<noteq> []"
  by (induction s) (auto split: list.splits)

lemma split_on_first: "split_on c s ! 0 = takeWhile (\<lambda>x. x \<noteq> c) s"
  by (induction s) (auto split: list.splits simp: split_on_not_Nil)

lemma split_on_single: "(length (split_on c s) < 2) = (c \<notin> set s)"
  by (induction s) (auto split: list.splits simp: split_on_not_Nil)

lemma split_on_second:
  "c \<in> set s \<Longrightarrow>
   split_on c s ! Suc 0 = takeWhile (\<lambda>x. x \<noteq> c) (tl (dropWhile (\<lambda>x. x \<noteq> c) s))"
proof (induction s)
  case Nil
  then show ?case by simp
next
  case (Cons x xs)
  show ?case
  proof (cases "x = c")
    case True
    then show ?thesis
      using split_on_first [of c xs] by simp
  next
    case False
    with Cons.prems have "c \<in> set xs"
      by simp
    moreover obtain part parts where "split_on c xs = part # parts"
      using split_on_not_Nil [of c xs] by (cases "split_on c xs") simp_all
    ultimately show ?thesis
      using Cons.IH False by simp
  qed
qed

lemma selection_step_entry:
  "selection_step env m e = tmap_assign (entry_key e) (entry_factor env e) m"
proof (cases "CHR '':'' \<in> set e")
  case True
  then show ?thesis
    using split_on_second [of "CHR '':''" e] split_on_first [of "CHR '':''" e]
    by (simp add: selection_step_def Let_def split_on_single entry_key_def entry_factor_def)
next
  case False
  then have "takeWhile (\<lambda>c. c \<noteq> CHR '':'') e = e"
    by auto
  then have "entry_key e = e"
    unfolding entry_key_def .
  moreover from False have "entry_factor env e = Number 100"
    by (simp add: entry_factor_def)
  moreover from False have "selection_step env m e = tmap_assign e (Number 100) m"
    by (simp add: selection_step_def Let_def split_on_single)
  ultimately show ?thesis
    by simp
qed

lemma map_of_tmap_assign:
  "map_of (tmap_assign k v m) = (if k = ''__proto__'' then map_of m else (map_of m)(k \<mapsto> v))"
  by (simp add: tmap_assign_def update_conv')

lemma distinct_tmap_assign:
  "distinct (map fst m) \<Longrightarrow> distinct (map fst (tmap_assign k v m))"
  by (simp add: tmap_assign_def distinct_update)

lemma map_of_foldl_selection:
  "map_of (foldl (selection_step env) m codes) k =
     (if k = ''__proto__'' then map_of m k
      else (case map_of (rev (map (\<lambda>e. (entry_key e, entry_factor env e)) codes)) k of
              Some v \<Rightarrow> Some v
            | None \<Rightarrow> map_of m k))"
proof (induction codes arbitrary: m)
  case Nil
  show ?case by simp
next
  case (Cons e codes)
  have "map_of (foldl (selection_step env) m (e # codes)) k
          = map_of (foldl (selection_step env)
                      (tmap_assign (entry_key e) (entry_factor env e) m) codes) k"
    by (simp add: selection_step_entry)
  also have "\<dots> =
     (if k = ''__proto__''
      then map_of (tmap_assign (entry_key e) (entry_factor env e) m) k
      else (case map_of (rev (map (\<lambda>e. (entry_key e, entry_factor env e)) codes)) k of
              Some v \<Rightarrow> Some v
            | None \<Rightarrow> map_of (tmap_assign (entry_key e) (entry_factor env e) m) k))"
    by (rule Cons.IH)
  also have "\<dots> =
     (if k = ''__proto__'' then map_of m k
      else (case map_of (rev (map (\<lambda>e. (entry_key e, entry_factor env e)) (e # codes))) k of
              Some v \<Rightarrow> Some v
            | None \<Rightarrow> map_of m k))"
    by (simp add: map_of_tmap_assign map_add_def split: option.splits)
  finally show ?case .
qed

lemma map_of_selection:
  "map_of (selection env config) k =
     (if k = ''__proto__'' then None else configured env config k)"
proof (cases "sectors config")
  case (Def codes)
  then show ?thesis
    by (simp add: selection_def configured_def map_of_foldl_selection split: option.splits)
qed (simp_all add: selection_def configured_def)

lemma foldl_selection_distinct:
  "distinct (map fst m) \<Longrightarrow> distinct (map fst (foldl (selection_step env) m codes))"
  by (induction codes arbitrary: m) (simp_all add: selection_step_entry distinct_tmap_assign)

lemma selection_distinct: "distinct (map fst (selection env config))"
  using foldl_selection_distinct [of "[]"]
  by (simp add: selection_def split: jsopt.splits)

lemma set_selection:
  "((k, v) \<in> set (selection env config))
     = (k \<noteq> ''__proto__'' \<and> configured env config k = Some v)"
proof -
  have "((k, v) \<in> set (selection env config)) = (map_of (selection env config) k = Some v)"
    by (simp add: selection_distinct)
  then show ?thesis
    by (simp add: map_of_selection)
qed

lemma configured_key: "configured env config k = Some v \<Longrightarrow> CHR '':'' \<notin> set k"
proof -
  assume a: "configured env config k = Some v"
  then obtain codes where "sectors config = Def codes"
    by (cases "sectors config") (simp_all add: configured_def)
  with a have "map_of (rev (map (\<lambda>e. (entry_key e, entry_factor env e)) codes)) k = Some v"
    by (simp add: configured_def)
  then have "(k, v) \<in> set (rev (map (\<lambda>e. (entry_key e, entry_factor env e)) codes))"
    by (rule map_of_SomeD)
  then obtain e where "k = entry_key e"
    by auto
  then show ?thesis
    unfolding entry_key_def by (auto dest: set_takeWhileD)
qed

lemma entry_key_text: "CHR '':'' \<notin> set k \<Longrightarrow> entry_key (k @ '':'' @ t) = k"
proof -
  assume "CHR '':'' \<notin> set k"
  then have "takeWhile (\<lambda>c. c \<noteq> CHR '':'') (k @ CHR '':'' # t)
               = k @ takeWhile (\<lambda>c. c \<noteq> CHR '':'') (CHR '':'' # t)"
    by (intro takeWhile_append2) auto
  then show ?thesis
    by (simp add: entry_key_def)
qed


lemma keep_truthy:
  "concat (map (\<lambda>s. case s of Def e \<Rightarrow> (if truthy_str s then [e] else []) | _ \<Rightarrow> [])
             (map (\<lambda>code. if code \<noteq> [] then Def (code @ f code) else Null) ks))
     = map (\<lambda>k. k @ f k) (filter (\<lambda>k. k \<noteq> []) ks)"
  by (induction ks) simp_all

lemma fireSelectionChange_filter:
  "fireSelectionChange env sel
     = map (\<lambda>k. k @ '':'' @ (case map_of sel k of Some v \<Rightarrow> template_text env v
                                 | None \<Rightarrow> ''undefined''))
         (filter (\<lambda>k. k \<noteq> []) (object_keys sel))"
  unfolding fireSelectionChange_def Let_def
  by (rule keep_truthy)

lemma set_fireSelectionChange:
  assumes "distinct (map fst sel)"
  shows "set (fireSelectionChange env sel)
           = {entry_text env k v | k v. (k, v) \<in> set sel \<and> k \<noteq> []}"
proof -
  have "set (fireSelectionChange env sel)
          = (\<lambda>k. k @ '':'' @ (case map_of sel k of Some v \<Rightarrow> template_text env v
                                 | None \<Rightarrow> ''undefined'')) ` {k \<in> fst ` set sel. k \<noteq> []}"
    by (simp add: fireSelectionChange_filter set_object_keys)
  also have "\<dots> = {entry_text env k v | k v. (k, v) \<in> set sel \<and> k \<noteq> []}"
    using assms by (force simp add: entry_text_def image_iff)
  finally show ?thesis .
qed

lemma set_update_new:
  "k \<notin> fst ` set al \<Longrightarrow> set (AList.update k v al) = insert (k, v) (set al)"
  by (induction al) auto

lemma set_delete: "set (AList.delete k al) = {kv \<in> set al. fst kv \<noteq> k}"
  by (auto simp add: AList.delete_eq)

lemma selected_iff:
  "selected (commodity_of sel s) = (map_of sel (sector_code s) \<noteq> None)"
  by (auto simp add: commodity_of_def tmap_get_def split: option.splits property.splits)

text \<open>
  C6, as amended: let the configuration have no entry of the code \<open>__proto__\<close>.
  Clicking the check box of a commodity that is not selected, with a code that is
  neither empty nor \<open>__proto__\<close>, fires the entry \<open>code:100\<close> and, for every code but
  the empty one that the configuration selects, the entry of the code and its factor.
  Clicking the check box of a selected commodity fires these entries of the other
  codes, and no entry of its code.
\<close>

theorem checkbox_onClick_toggle:
  assumes "number_text env 100 = ''100''"
    and "configured env config ''__proto__'' = None"
  shows
    "(\<not> selected (commodity_of (selection env config) s)
        \<and> sector_code s \<noteq> [] \<and> sector_code s \<noteq> ''__proto__''
      \<longrightarrow> set (checkbox_onClick env config (commodity_of (selection env config) s))
            = insert (sector_code s @ '':100'')
                {entry_text env k v | k v. configured env config k = Some v \<and> k \<noteq> []})
     \<and> (selected (commodity_of (selection env config) s)
      \<longrightarrow> set (checkbox_onClick env config (commodity_of (selection env config) s))
            = {entry_text env k v | k v.
                 configured env config k = Some v \<and> k \<noteq> [] \<and> k \<noteq> sector_code s}
          \<and> (\<forall>e \<in> set (checkbox_onClick env config (commodity_of (selection env config) s)).
                entry_key e \<noteq> sector_code s))"
proof (intro conjI impI)
  let ?sel = "selection env config" and ?k = "sector_code s"
  have sel: "((k, v) \<in> set ?sel) = (configured env config k = Some v)" for k v
    using assms(2) by (auto simp add: set_selection)
  {
    assume a: "\<not> selected (commodity_of ?sel s) \<and> ?k \<noteq> [] \<and> ?k \<noteq> ''__proto__''"
    then have new: "?k \<notin> fst ` set ?sel"
      by (simp add: selected_iff map_of_eq_None_iff)
    from a have assign: "tmap_assign ?k (Number 100) ?sel = AList.update ?k (Number 100) ?sel"
      by (simp add: tmap_assign_def)
    have "distinct (map fst (AList.update ?k (Number 100) ?sel))"
      by (simp add: distinct_update selection_distinct)
    then have "set (fireSelectionChange env (AList.update ?k (Number 100) ?sel))
        = {entry_text env k v | k v. (k, v) \<in> insert (?k, Number 100) (set ?sel) \<and> k \<noteq> []}"
      by (simp add: set_fireSelectionChange set_update_new [OF new])
    also from a have "\<dots> = insert (entry_text env ?k (Number 100))
        {entry_text env k v | k v. configured env config k = Some v \<and> k \<noteq> []}"
      by (auto simp add: sel)
    also from assms(1) have "entry_text env ?k (Number 100) = ?k @ '':100''"
      by (simp add: entry_text_def template_text_def)
    finally show "set (checkbox_onClick env config (commodity_of ?sel s))
        = insert (?k @ '':100'')
            {entry_text env k v | k v. configured env config k = Some v \<and> k \<noteq> []}"
      using a assign by (simp add: checkbox_onClick_def commodity_of_def)
  }
  {
    assume a: "selected (commodity_of ?sel s)"
    have "distinct (map fst (AList.delete ?k ?sel))"
      by (simp add: distinct_delete selection_distinct)
    then have "set (fireSelectionChange env (AList.delete ?k ?sel))
        = {entry_text env k v | k v. (k, v) \<in> set (AList.delete ?k ?sel) \<and> k \<noteq> []}"
      by (rule set_fireSelectionChange)
    also have "\<dots> = {entry_text env k v | k v.
        configured env config k = Some v \<and> k \<noteq> [] \<and> k \<noteq> ?k}"
      by (auto simp add: set_delete sel)
    finally show fired: "set (checkbox_onClick env config (commodity_of ?sel s))
        = {entry_text env k v | k v. configured env config k = Some v \<and> k \<noteq> [] \<and> k \<noteq> ?k}"
      using a by (simp add: checkbox_onClick_def commodity_of_def)
    show "\<forall>e \<in> set (checkbox_onClick env config (commodity_of ?sel s)). entry_key e \<noteq> ?k"
    proof
      fix e
      assume "e \<in> set (checkbox_onClick env config (commodity_of ?sel s))"
      with fired obtain k v where kv: "e = entry_text env k v"
        "configured env config k = Some v" "k \<noteq> ?k"
        by auto
      from kv(2) have "CHR '':'' \<notin> set k"
        by (rule configured_key)
      then have "entry_key e = k"
        unfolding kv(1) entry_text_def by (rule entry_key_text)
      with kv(3) show "entry_key e \<noteq> ?k"
        by simp
    qed
  }
qed


lemmas grid_eval = selection_def selection_step_def tmap_assign_def tmap_get_def
  Object_prototype_def example_grid_def example_parseInt_def is_space_def
  is_digit_def digit_of_def digits_value_def commodity_of_def checkbox_onClick_def
  fireSelectionChange_def object_keys_def array_index_def index_value_def
  template_text_def decimal_text_def ifNone_def empty_config_def show_nat.simps Let_def

theorem checkbox_onClick_toggle_witness:
  "set (checkbox_onClick example_grid (empty_config\<lparr> sectors := Def [''A:50'', ''B''] \<rparr>)
          (commodity_of (selection example_grid (empty_config\<lparr> sectors := Def [''A:50'', ''B''] \<rparr>))
             Cherry))
     = {''A:50'', ''B:100'', ''C:100''}
   \<and> checkbox_onClick example_grid (empty_config\<lparr> sectors := Def [''A:50'', ''B''] \<rparr>)
          (commodity_of (selection example_grid (empty_config\<lparr> sectors := Def [''A:50'', ''B''] \<rparr>))
             (sector_with_code ''A''))
     = [''B:100'']
   \<and> entry_key ''B:100'' = ''B''"
  using checkbox_onClick_toggle
    [of example_grid "empty_config\<lparr> sectors := Def [''A:50'', ''B''] \<rparr>" Cherry]
    checkbox_onClick_toggle
    [of example_grid "empty_config\<lparr> sectors := Def [''A:50'', ''B''] \<rparr>" "sector_with_code ''A''"]
  by (simp add: grid_eval Cherry_def sector_with_code_def entry_key_def)

text \<open>
  C6 as it is stated fails for a commodity whose code is the empty text, and for one
  whose code is \<open>__proto__\<close>: neither is selected, and the click fires no entry for it.
\<close>

theorem checkbox_onClick_empty_code:
  "\<not> selected (commodity_of (selection example_grid empty_config) (sector_with_code []))
   \<and> checkbox_onClick example_grid empty_config
        (commodity_of (selection example_grid empty_config) (sector_with_code [])) = []
   \<and> [] @ '':100'' \<notin> set (checkbox_onClick example_grid empty_config
        (commodity_of (selection example_grid empty_config) (sector_with_code [])))
   \<and> \<not> selected (commodity_of (selection example_grid empty_config)
        (sector_with_code ''__proto__''))
   \<and> ''__proto__'' @ '':100'' \<notin> set (checkbox_onClick example_grid empty_config
        (commodity_of (selection example_grid empty_config) (sector_with_code ''__proto__'')))"
  by (simp add: grid_eval sector_with_code_def)

lemma commodity_of_value:
  assumes "sector_code s \<notin> set Object_prototype"
  shows "selected (commodity_of (selection env config) s)
           = (configured env config (sector_code s) \<noteq> None)"
    and "commodity_value (commodity_of (selection env config) s)
           = NumberProperty (case configured env config (sector_code s) of
                               Some v \<Rightarrow> v | None \<Rightarrow> Number 100)"
proof -
  from assms have "sector_code s \<noteq> ''__proto__''"
    by (auto simp add: Object_prototype_def)
  then have m: "map_of (selection env config) (sector_code s)
      = configured env config (sector_code s)"
    by (simp add: map_of_selection)
  then show "selected (commodity_of (selection env config) s)
      = (configured env config (sector_code s) \<noteq> None)"
    by (simp add: selected_iff)
  from assms m show "commodity_value (commodity_of (selection env config) s)
      = NumberProperty (case configured env config (sector_code s) of
                          Some v \<Rightarrow> v | None \<Rightarrow> Number 100)"
    by (simp add: commodity_of_def tmap_get_def ifNone_def split: option.splits)
qed

text \<open>
  C8, as amended: when the sort options return commodities of the list they are given,
  every commodity of the grid is the commodity of a sector of the sector list. The
  commodity of a sector whose code is no property of \<open>Object.prototype\<close> is selected
  exactly when the configuration has an entry of its code; its value is the factor of
  the last such entry, which is 100 for an entry without a factor and \<open>parseInt\<close> of
  the factor else, and it is 100 without an entry; so the value lies between 0 and 500
  exactly when that factor does.
\<close>

theorem commodities_value:
  assumes "\<forall>cs. set (sort_apply sortOpts cs) \<subseteq> set cs"
  shows
    "(\<forall>c \<in> set (commodities env sortOpts searchTerm config secs).
        \<exists>s \<in> set secs. c = commodity_of (selection env config) s)
     \<and> (sector_code s \<notin> set Object_prototype \<longrightarrow>
          selected (commodity_of (selection env config) s)
            = (configured env config (sector_code s) \<noteq> None)
          \<and> commodity_value (commodity_of (selection env config) s)
              = NumberProperty (case configured env config (sector_code s) of
                                  Some v \<Rightarrow> v | None \<Rightarrow> Number 100)
          \<and> in_range (commodity_value (commodity_of (selection env config) s))
              = (case configured env config (sector_code s) of
                   Some v \<Rightarrow> factor_in_range v | None \<Rightarrow> True))"
proof (intro conjI ballI impI)
  fix c
  assume "c \<in> set (commodities env sortOpts searchTerm config secs)"
  then have "c \<in> set (sort_apply sortOpts (map (commodity_of (selection env config)) secs))"
    by (auto simp add: commodities_def Let_def split: if_splits)
  with assms have "c \<in> set (map (commodity_of (selection env config)) secs)"
    by blast
  then show "\<exists>s \<in> set secs. c = commodity_of (selection env config) s"
    by auto
next
  assume a: "sector_code s \<notin> set Object_prototype"
  show "selected (commodity_of (selection env config) s)
      = (configured env config (sector_code s) \<noteq> None)"
    by (rule commodity_of_value(1) [OF a])
  show "commodity_value (commodity_of (selection env config) s)
      = NumberProperty (case configured env config (sector_code s) of
                          Some v \<Rightarrow> v | None \<Rightarrow> Number 100)"
    by (rule commodity_of_value(2) [OF a])
  then show "in_range (commodity_value (commodity_of (selection env config) s))
      = (case configured env config (sector_code s) of
           Some v \<Rightarrow> factor_in_range v | None \<Rightarrow> True)"
    by (simp add: in_range_def factor_in_range_def split: option.splits)
qed

theorem commodities_value_witness:
  "map (\<lambda>c. (commodity_code c, selected c, commodity_value c))
       (commodities example_grid example_sortOpts []
          (empty_config\<lparr> sectors := Def [''A:9'', ''B'', ''A:250''] \<rparr>) [Apple, Banana, Cherry])
     = [(''C'', False, NumberProperty (Number 100)),
        (''B'', True, NumberProperty (Number 100)),
        (''A'', True, NumberProperty (Number 250))]
   \<and> configured example_grid (empty_config\<lparr> sectors := Def [''A:9'', ''B'', ''A:250''] \<rparr>) ''A''
       = Some (Number 250)
   \<and> in_range (commodity_value
        (commodity_of (selection example_grid
           (empty_config\<lparr> sectors := Def [''A:9'', ''B'', ''A:250''] \<rparr>)) Apple))"
  using commodities_value
    [of example_sortOpts example_grid "[]"
      "empty_config\<lparr> sectors := Def [''A:9'', ''B'', ''A:250''] \<rparr>" "[Apple, Banana, Cherry]"
      Apple]
  by (simp add: grid_eval commodities_def example_sortOpts_def Apple_def Banana_def Cherry_def
      configured_def entry_key_def entry_factor_def in_range_def factor_in_range_def)

text \<open>
  C8 as it is stated fails for a factor of the configuration beyond 500, which the
  commodity takes as its value; and for a sector with the code \<open>toString\<close> that is not
  selected, whose value is the function of that name.
\<close>

theorem commodities_value_out_of_range:
  "parseInt example_grid ''9999'' = Number 9999
   \<and> map commodity_value
       (commodities example_grid example_sortOpts []
          (empty_config\<lparr> sectors := Def [''A:9999''] \<rparr>) [Apple])
     = [NumberProperty (Number 9999)]
   \<and> \<not> in_range (NumberProperty (Number 9999))
   \<and> commodity_value (commodity_of (selection example_grid empty_config)
        (sector_with_code ''toString'')) = InheritedProperty
   \<and> \<not> in_range InheritedProperty"
  by (simp add: grid_eval commodities_def example_sortOpts_def Apple_def sector_with_code_def
      in_range_def factor_in_range_def)





lemma set_js_insert: "set (js_insert cmp x ys) = insert x (set ys)"
  by (induction ys) auto

lemma sorted_js_insert:
  assumes total: "\<And>a b. cmp a b \<le> 0 \<or> cmp b a \<le> 0"
    and trans: "\<And>a b c. cmp a b \<le> 0 \<Longrightarrow> cmp b c \<le> 0 \<Longrightarrow> cmp a c \<le> 0"
    and sorted: "sorted_wrt (\<lambda>a b. cmp a b \<le> 0) ys"
  shows "sorted_wrt (\<lambda>a b. cmp a b \<le> 0) (js_insert cmp x ys)"
  using sorted
proof (induction ys)
  case Nil
  show ?case by simp
next
  case (Cons y ys)
  show ?case
  proof (cases "cmp x y \<le> 0")
    case True
    with Cons.prems trans [of x y] show ?thesis
      by auto
  next
    case False
    with total [of x y] have "cmp y x \<le> 0"
      by simp
    with False Cons show ?thesis
      by (auto simp add: set_js_insert)
  qed
qed

lemma sorted_js_sort:
  assumes "\<And>a b. cmp a b \<le> 0 \<or> cmp b a \<le> 0"
    and "\<And>a b c. cmp a b \<le> 0 \<Longrightarrow> cmp b c \<le> 0 \<Longrightarrow> cmp a c \<le> 0"
  shows "sorted_wrt (\<lambda>a b. cmp a b \<le> 0) (js_sort cmp xs)"
  unfolding js_sort_def
  by (induction xs) (simp_all add: sorted_js_insert [OF assms])

lemma compare_rows_before: "(compare_rows env row1 row2 \<le> 0) = row_before env row1 row2"
  by (cases row1; cases row2) (auto simp add: compare_rows_def row_before_def)

lemma row_before_total:
  assumes "consistent_comparator (strings_compare env)"
  shows "row_before env a b \<or> row_before env b a"
proof -
  from assms have "strings_compare env x y \<le> 0 \<or> strings_compare env y x \<le> 0" for x y
    unfolding consistent_comparator_def by (metis not_le order_less_imp_le)
  then show ?thesis
    unfolding row_before_def by (metis not_less_iff_gr_or_eq)
qed

lemma row_before_trans:
  assumes "consistent_comparator (strings_compare env)"
    and "row_before env a b" and "row_before env b c"
  shows "row_before env a c"
proof -
  from assms(1) have "strings_compare env x y \<le> 0 \<Longrightarrow> strings_compare env y z \<le> 0
      \<Longrightarrow> strings_compare env x z \<le> 0" for x y z
    unfolding consistent_comparator_def by blast
  with assms(2,3) show ?thesis
    unfolding row_before_def by (metis order_less_trans)
qed

lemma sorted_rows:
  assumes "consistent_comparator (strings_compare env)"
  shows "sorted_wrt (row_before env) (js_sort (compare_rows env) rows)"
proof -
  have "sorted_wrt (\<lambda>a b. compare_rows env a b \<le> 0) (js_sort (compare_rows env) rows)"
  proof (rule sorted_js_sort)
    show "compare_rows env a b \<le> 0 \<or> compare_rows env b a \<le> 0" for a b
      unfolding compare_rows_before by (rule row_before_total [OF assms])
    show "compare_rows env a b \<le> 0 \<Longrightarrow> compare_rows env b c \<le> 0
        \<Longrightarrow> compare_rows env a c \<le> 0" for a b c
      unfolding compare_rows_before by (rule row_before_trans [OF assms])
  qed
  then show ?thesis
    unfolding compare_rows_before .
qed

lemma alphabetical_sym: "(alphabetical a b < 0) = (0 < alphabetical b a)"
  by (induction a b rule: alphabetical.induct) auto

lemma alphabetical_Cons_le:
  "(alphabetical (x # xs) (y # ys) \<le> 0)
     = ((of_char x :: nat) < of_char y \<or> (x = y \<and> alphabetical xs ys \<le> 0))"
  by auto

lemma alphabetical_trans:
  "alphabetical a b \<le> 0 \<Longrightarrow> alphabetical b c \<le> 0 \<Longrightarrow> alphabetical a c \<le> 0"
proof (induction a b arbitrary: c rule: alphabetical.induct)
  case 1
  then show ?case by simp
next
  case (2 y ys)
  then show ?case by (cases c) simp_all
next
  case (3 x xs)
  then show ?case by simp
next
  case (4 x xs y ys)
  show ?case
  proof (cases c)
    case Nil
    with "4.prems" show ?thesis by simp
  next
    case (Cons z zs)
    from "4.prems"(1) have xy: "(of_char x :: nat) < of_char y
        \<or> (x = y \<and> alphabetical xs ys \<le> 0)"
      unfolding alphabetical_Cons_le .
    from "4.prems"(2) have yz: "(of_char y :: nat) < of_char z
        \<or> (y = z \<and> alphabetical ys zs \<le> 0)"
      unfolding Cons alphabetical_Cons_le .
    have "(of_char x :: nat) < of_char z \<or> (x = z \<and> alphabetical xs zs \<le> 0)"
    proof (cases "x = y \<and> y = z")
      case True
      with xy yz have "alphabetical xs ys \<le> 0" and "alphabetical ys zs \<le> 0"
        by simp_all
      with True "4.IH" [of zs] show ?thesis
        by simp
    next
      case False
      with xy yz show ?thesis
        by (metis less_trans)
    qed
    then show ?thesis
      unfolding Cons alphabetical_Cons_le .
  qed
qed

lemma alphabetical_consistent: "consistent_comparator alphabetical"
  unfolding consistent_comparator_def
  using alphabetical_sym alphabetical_trans by blast

text \<open>
  C3: when the comparator of names is a consistent one that puts Apple before Banana,
  every ranking of the component is ordered by descending score, and rows of one score
  by their names; and the sectors Apple and Banana, without a result, an indicator or
  a search term, are ranked as Apple, Banana.
\<close>

theorem Component_ranking_sorted:
  assumes "consistent_comparator (strings_compare env)"
    and "strings_compare env ''Apple'' ''Banana'' < 0"
  shows "(\<forall>ranking. Component_ranking env this sorter searchTerm = Some ranking
            \<longrightarrow> sorted_wrt (row_before env) ranking)
         \<and> (sector_name a = ''Apple'' \<and> sector_name b = ''Banana''
              \<and> this_result this = None \<and> this_sectors this = Some [a, b]
            \<longrightarrow> Component_ranking env this None Null = Some [(a, 0), (b, 0)])"
proof (intro conjI allI impI)
  fix ranking
  assume "Component_ranking env this sorter searchTerm = Some ranking"
  then obtain rows where "ranking = js_sort (compare_rows env) rows"
    by (auto simp add: Component_ranking_def Let_def split: option.splits)
  with assms(1) show "sorted_wrt (row_before env) ranking"
    by (simp add: sorted_rows)
next
  assume "sector_name a = ''Apple'' \<and> sector_name b = ''Banana''
      \<and> this_result this = None \<and> this_sectors this = Some [a, b]"
  with assms(2) show "Component_ranking env this None Null = Some [(a, 0), (b, 0)]"
    by (simp add: Component_ranking_def js_sort_def compare_rows_def)
qed

theorem Component_ranking_sorted_witness:
  "Component_ranking example_env
       \<lparr> this_config = Some empty_config, this_result = None, this_demand = None,
         this_indicators = Some [], this_sectors = Some [Banana, Apple],
         this_naicsAttr = Null \<rparr> None Null
     = Some [(Apple, 0), (Banana, 0)]
   \<and> sorted_wrt (row_before example_env) [(Apple, 0), (Banana, 0)]
   \<and> Component_ranking example_env
       \<lparr> this_config = Some empty_config, this_result = None, this_demand = None,
         this_indicators = Some [], this_sectors = Some [Apple, Banana],
         this_naicsAttr = Null \<rparr> None Null
     = Some [(Apple, 0), (Banana, 0)]"
  using Component_ranking_sorted
    [of example_env
      "\<lparr> this_config = Some empty_config, this_result = None, this_demand = None,
         this_indicators = Some [], this_sectors = Some [Banana, Apple],
         this_naicsAttr = Null \<rparr>" None Null Apple Banana]
    Component_ranking_sorted
    [of example_env
      "\<lparr> this_config = Some empty_config, this_result = None, this_demand = None,
         this_indicators = Some [], this_sectors = Some [Apple, Banana],
         this_naicsAttr = Null \<rparr>" None Null Apple Banana]
    alphabetical_consistent
  by (simp add: example_env_def Apple_def Banana_def Component_ranking_def js_sort_def
      compare_rows_def)

lemma csv_split_column:
  "one_column inside cell \<Longrightarrow>
   csv_split inside column (cell @ rest) = csv_split False (column @ cell) rest"
  by (induction cell arbitrary: inside column) (auto split: if_splits)

lemma one_column_closing: "dquote \<notin> set s \<Longrightarrow> one_column True (s @ [dquote])"
  by (induction s) auto

lemma one_column_quoted: "dquote \<notin> set s \<Longrightarrow> one_column False ([dquote] @ s @ [dquote])"
  by (simp add: one_column_closing)

lemma one_column_plain:
  "dquote \<notin> set s \<Longrightarrow> CHR '','' \<notin> set s \<Longrightarrow> one_column False s"
  by (induction s) auto

lemma csv_split_cells:
  "list_all (one_column False) cells \<Longrightarrow>
   csv_split False column (concat (map (\<lambda>cell. CHR '','' # cell) cells)) = column # cells"
proof (induction cells arbitrary: column)
  case Nil
  show ?case by simp
next
  case (Cons cell cells)
  then have "csv_split False [] (cell @ concat (map (\<lambda>cell. CHR '','' # cell) cells))
               = cell # cells"
    by (simp add: csv_split_column dquote_def)
  then show ?case
    by (simp add: dquote_def)
qed

lemma csv_columns_cells:
  assumes "list_all (one_column False) (cell # cells)"
  shows "csv_columns (cell @ concat (map (\<lambda>cell. CHR '','' # cell) cells)) = cell # cells"
  using assms by (simp add: csv_columns_def csv_split_column csv_split_cells)


lemma csv_header_cells:
  "csv_header w
     = hd (header_columns w) @ concat (map (\<lambda>cell. CHR '','' # cell) (tl (header_columns w)))"
proof -
  have "concat (map (\<lambda>i. '','' @ f i) inds) = concat (map (\<lambda>cell. CHR '','' # cell) (map f inds))"
    for f :: "Indicator \<Rightarrow> string" and inds
    by (induction inds) simp_all
  then show ?thesis
    by (simp add: csv_header_def header_columns_def split: option.splits)
qed

lemma csv_row_cells:
  "csv_row env w row
     = hd (row_columns env w row)
       @ concat (map (\<lambda>cell. CHR '','' # cell) (tl (row_columns env w row)))"
proof -
  have "concat (map (\<lambda>i. '','' @ f i) inds) = concat (map (\<lambda>cell. CHR '','' # cell) (map f inds))"
    for f :: "Indicator \<Rightarrow> string" and inds
    by (induction inds) simp_all
  then show ?thesis
    by (cases row) (simp add: csv_row_def row_columns_def split: option.splits)
qed

lemma header_columns_ok:
  assumes "list_all quote_free_indicator (case this_indicators w of Some inds \<Rightarrow> inds | None \<Rightarrow> [])"
  shows "list_all (one_column False) (header_columns w)"
proof -
  have "one_column False ([dquote] @ indicator_code i @ '' - '' @ indicator_name i
          @ '' ['' @ indicator_unit i @ '']'' @ [dquote])"
    if "quote_free_indicator i" for i
  proof -
    from that have "dquote \<notin> set (indicator_code i @ '' - '' @ indicator_name i
        @ '' ['' @ indicator_unit i @ '']'')"
      by (simp add: quote_free_indicator_def dquote_def)
    then have "one_column False ([dquote] @ (indicator_code i @ '' - '' @ indicator_name i
        @ '' ['' @ indicator_unit i @ '']'') @ [dquote])"
      by (rule one_column_quoted)
    then show ?thesis
      by simp
  qed
  with assms show ?thesis
    by (auto simp add: header_columns_def dquote_def list_all_iff split: option.splits)
qed

lemma row_columns_ok:
  assumes "\<forall>x. dquote \<notin> set (show_number env x) \<and> CHR '','' \<notin> set (show_number env x)"
    and "quote_free_row row"
  shows "list_all (one_column False) (row_columns env w row)"
proof -
  from assms(1) have number: "one_column False (show_number env x)" for x
    by (simp add: one_column_plain)
  have "one_column False ''undefined''"
    by (simp add: dquote_def)
  with number have template: "one_column False (template_number env x)" for x
    by (cases x) (simp_all add: template_number_def)
  from assms(2) have "one_column False ([dquote] @ sector_code (fst row) @ [dquote])"
    and "one_column False ([dquote] @ sector_name (fst row) @ [dquote])"
    unfolding quote_free_row_def by (blast intro: one_column_quoted)+
  with number template show ?thesis
    by (auto simp add: row_columns_def list_all_iff split: option.splits)
qed

lemma length_header_columns: "length (header_columns w) = column_count w"
  by (auto simp add: header_columns_def column_count_def indicatorCount_def split: option.splits)

lemma length_row_columns: "length (row_columns env w row) = column_count w"
  by (auto simp add: row_columns_def column_count_def indicatorCount_def split: option.splits)

lemma header_columns_Cons: "header_columns w = hd (header_columns w) # tl (header_columns w)"
  by (simp add: header_columns_def)

lemma row_columns_Cons:
  "row_columns env w row = hd (row_columns env w row) # tl (row_columns env w row)"
  by (simp add: row_columns_def)

text \<open>
  C4, as amended: when no code, name or unit holds a double quote, the first line of
  the delimited text and the line of every row of the ranking have the columns sector
  code, sector name, the demand when the widget has one, and, when the widget has a
  result, one column for each indicator and the ranking; these are
  \<open>2 + (demand ? 1 : 0) + (result ? indicatorCount + 1 : 0)\<close> columns.
\<close>

theorem csv_column_count:
  assumes "\<forall>x. dquote \<notin> set (show_number env x) \<and> CHR '','' \<notin> set (show_number env x)"
    and "list_all quote_free_indicator
           (case this_indicators w of Some inds \<Rightarrow> inds | None \<Rightarrow> [])"
    and "download_ranking w = Some ranking"
    and "list_all quote_free_row ranking"
  shows "onDownload_CSV env w
           = Some (csv_header w @ [newline]
                   @ concat (map (\<lambda>row. csv_row env w row @ [newline]) ranking))
         \<and> csv_columns (csv_header w) = header_columns w
         \<and> length (csv_columns (csv_header w)) = column_count w
         \<and> (\<forall>row \<in> set ranking.
               csv_columns (csv_row env w row) = row_columns env w row
               \<and> length (csv_columns (csv_row env w row)) = column_count w)"
proof (intro conjI ballI)
  from assms(3) show "onDownload_CSV env w
      = Some (csv_header w @ [newline]
              @ concat (map (\<lambda>row. csv_row env w row @ [newline]) ranking))"
    by (simp add: onDownload_CSV_def)
next
  have "list_all (one_column False) (hd (header_columns w) # tl (header_columns w))"
    using header_columns_ok [OF assms(2)] header_columns_Cons [of w] by simp
  then have "csv_columns (csv_header w) = hd (header_columns w) # tl (header_columns w)"
    unfolding csv_header_cells by (rule csv_columns_cells)
  then show header: "csv_columns (csv_header w) = header_columns w"
    using header_columns_Cons [of w] by simp
  then show "length (csv_columns (csv_header w)) = column_count w"
    by (simp add: length_header_columns)
next
  fix row
  assume "row \<in> set ranking"
  with assms(4) have "quote_free_row row"
    by (simp add: list_all_iff)
  then have "list_all (one_column False)
      (hd (row_columns env w row) # tl (row_columns env w row))"
    using row_columns_ok [OF assms(1), of row w] row_columns_Cons [of env w row] by simp
  then have "csv_columns (csv_row env w row)
      = hd (row_columns env w row) # tl (row_columns env w row)"
    unfolding csv_row_cells by (rule csv_columns_cells)
  then show row: "csv_columns (csv_row env w row) = row_columns env w row"
    using row_columns_Cons [of env w row] by simp
  then show "length (csv_columns (csv_row env w row)) = column_count w"
    by (simp add: length_row_columns)
qed


lemma show_nat_digits: "set (show_nat n) \<subseteq> set ''0123456789''"
proof (induction n rule: show_nat.induct)
  case (1 n)
  have digit: "''0123456789'' ! k \<in> set ''0123456789''" if "k < 10" for k
    using that by (intro nth_mem) simp
  show ?case
  proof (cases "n < 10")
    case True
    with digit [of n] show ?thesis
      by (subst show_nat.simps) simp
  next
    case False
    have "n mod 10 < 10"
      by simp
    with False "1.IH" digit [of "n mod 10"] show ?thesis
      by (subst show_nat.simps) simp
  qed
qed

lemma example_number_plain:
  "\<forall>x. dquote \<notin> set (show_number example_env x) \<and> CHR '','' \<notin> set (show_number example_env x)"
proof
  fix x :: real
  have "dquote \<notin> set (show_nat n) \<and> CHR '','' \<notin> set (show_nat n)" for n
    using show_nat_digits [of n] by (auto simp add: dquote_def)
  then show "dquote \<notin> set (show_number example_env x)
      \<and> CHR '','' \<notin> set (show_number example_env x)"
    by (simp add: example_env_def decimal_text_def dquote_def)
qed

theorem csv_column_count_witness:
  "onDownload_CSV example_env example_ranked
     = Some (csv_header example_ranked @ [newline]
             @ concat (map (\<lambda>row. csv_row example_env example_ranked row @ [newline])
                         [(Apple, 2), (Banana, 1)]))
   \<and> csv_columns (csv_header example_ranked)
     = [''sector code'', ''sector name'', ''demand'',
        [dquote] @ ''GHG - Greenhouse Gases [kg CO2 eq]'' @ [dquote], ''ranking'']
   \<and> length (csv_columns (csv_header example_ranked)) = 5
   \<and> csv_columns (csv_row example_env example_ranked (Apple, 2))
     = [[dquote] @ ''A'' @ [dquote], [dquote] @ ''Apple'' @ [dquote], ''5'', ''3'', ''2'']
   \<and> csv_columns (csv_row example_env example_ranked (Banana, 1))
     = [[dquote] @ ''B'' @ [dquote], [dquote] @ ''Banana'' @ [dquote], ''undefined'', ''3'', ''1'']"
  using csv_column_count [of example_env example_ranked "[(Apple, 2), (Banana, 1)]"]
    example_number_plain
  by (simp add: example_ranked_def example_env_def example_indicator_def Apple_def Banana_def
      download_ranking_def quote_free_indicator_def quote_free_row_def dquote_def
      header_columns_def row_columns_def column_count_def indicatorCount_def
      template_number_def decimal_text_def show_nat.simps)

text \<open>
  C4 as it is stated fails for a widget with a result and an empty list of indicators:
  the first line has the column of the ranking, three columns where the specification
  counts two. It fails as well for a name with a double quote before a comma, which is
  written as it is: the line of its row has three columns.
\<close>

theorem csv_column_count_no_indicators:
  "csv_header example_widget = ''sector code,sector name,ranking''
   \<and> csv_columns (csv_header example_widget) = [''sector code'', ''sector name'', ''ranking'']
   \<and> spec_column_count example_widget = 2
   \<and> length (csv_columns (csv_header example_widget)) \<noteq> spec_column_count example_widget
   \<and> download_ranking example_quoted = Some [(Quoted, 0)]
   \<and> spec_column_count example_quoted = 2
   \<and> length (csv_columns (csv_row example_env example_quoted (Quoted, 0)))
       \<noteq> spec_column_count example_quoted"
  by (simp add: csv_header_def csv_row_def csv_columns_def download_ranking_def
      example_widget_def example_quoted_def Quoted_def spec_column_count_def
      indicatorCount_def dquote_def)

end
